theory Spec2Isabelle
  imports Main
begin

section \<open>Connection registry (Backend/socket/handlers.js)\<close>

text \<open>
  \<^verbatim>\<open>const onlineUsers = new Map(); // userId -> Set of socketIds\<close>

  The registry is a map from user ids to sets of socket ids. The connection handler
  (lines 38-42) and the disconnect listener (lines 351-357) change it before their first
  \<^verbatim>\<open>await\<close>, so each of them is one atomic step on the registry.
\<close>

type_synonym registry = "string \<rightharpoonup> string set"

definition on_connection :: "registry \<Rightarrow> string \<Rightarrow> string \<Rightarrow> registry" where
  "on_connection onlineUsers userId socketId =
     (let created = (if onlineUsers userId = None then onlineUsers(userId \<mapsto> {}) else onlineUsers)
      in case created userId of
           None \<Rightarrow> created
         | Some userSockets \<Rightarrow> created(userId \<mapsto> insert socketId userSockets))"

definition on_disconnect :: "registry \<Rightarrow> string \<Rightarrow> string \<Rightarrow> registry" where
  "on_disconnect onlineUsers userId socketId =
     (case onlineUsers userId of
        None \<Rightarrow> onlineUsers
      | Some userSockets \<Rightarrow>
          (let remaining = userSockets - {socketId}
           in if remaining = {} then onlineUsers(userId := None)
              else onlineUsers(userId \<mapsto> remaining)))"

definition isUserOnline :: "registry \<Rightarrow> string \<Rightarrow> bool" where
  "isUserOnline onlineUsers userId = (onlineUsers userId \<noteq> None)"

definition getOnlineUsers :: "registry \<Rightarrow> string set" where
  "getOnlineUsers onlineUsers = dom onlineUsers"

text \<open>The socket ids the registry holds for a user: the user's set, or none without an entry.\<close>

definition registeredSockets :: "registry \<Rightarrow> string \<Rightarrow> string set" where
  "registeredSockets onlineUsers userId =
     (case onlineUsers userId of None \<Rightarrow> {} | Some userSockets \<Rightarrow> userSockets)"

text \<open>
  What happens to the sockets, in the order it happens:
  \<^item> \<open>Connect u s\<close>: the connection handler starts for socket \<open>s\<close> of user \<open>u\<close> and
    adds it to the registry (lines 38-42);
  \<^item> \<open>Listen u s\<close>: the handler reaches line 347 and registers the disconnect listener of
    the socket. This comes after the awaits of lines 45, 51 and 57, and does not come at
    all when the handler throws before it;
  \<^item> \<open>Disconnect u s\<close>: the socket closes. Its disconnect listener runs (lines 351-357)
    if it is registered by then; a close before that runs nothing.
\<close>

datatype socket_event =
  Connect string string | Listen string string | Disconnect string string

record gateway =
  gw_registry :: registry
  gw_listening :: "(string \<times> string) set"

fun gateway_step :: "gateway \<Rightarrow> socket_event \<Rightarrow> gateway" where
  "gateway_step g (Connect userId socketId) =
     g\<lparr>gw_registry := on_connection (gw_registry g) userId socketId\<rparr>"
| "gateway_step g (Listen userId socketId) =
     g\<lparr>gw_listening := insert (userId, socketId) (gw_listening g)\<rparr>"
| "gateway_step g (Disconnect userId socketId) =
     (if (userId, socketId) \<in> gw_listening g
      then g\<lparr>gw_registry := on_disconnect (gw_registry g) userId socketId\<rparr>
      else g)"

text \<open>The registry after a sequence of events, from the empty map the module starts with.\<close>

definition gateway_start :: gateway where
  "gateway_start = \<lparr>gw_registry = Map.empty, gw_listening = {}\<rparr>"

definition registry_after :: "socket_event list \<Rightarrow> registry" where
  "registry_after evs = gw_registry (foldl gateway_step gateway_start evs)"

definition no_empty_entry :: "registry \<Rightarrow> bool" where
  "no_empty_entry r = (\<forall>u. r u \<noteq> Some {})"

section \<open>Documents of the store (Backend/models/Chat.js, Message.js)\<close>

text \<open>
  Object ids are compared through their string form everywhere in the handlers, so an
  object id is a string. A document of the store carries the fields the handlers read or
  write: \<open>chat_type\<close>, \<open>chat_participants\<close> and \<open>chat_admins\<close> are the chat
  schema's \<^verbatim>\<open>type\<close>, \<^verbatim>\<open>participants\<close> and \<^verbatim>\<open>admins\<close>; the \<open>msg_\<close> fields are the
  message schema's \<^verbatim>\<open>chat\<close>, \<^verbatim>\<open>sender\<close>, \<^verbatim>\<open>content\<close>, \<^verbatim>\<open>type\<close>, \<^verbatim>\<open>status\<close>,
  \<^verbatim>\<open>readBy\<close> (pairs of \<^verbatim>\<open>user\<close> and \<^verbatim>\<open>readAt\<close>), \<^verbatim>\<open>reactions\<close>, \<^verbatim>\<open>isEdited\<close>,
  \<^verbatim>\<open>editedAt\<close> and \<^verbatim>\<open>isDeleted\<close>. Times are natural numbers.
\<close>

type_synonym oid = string

datatype chat_type = Private | Group

datatype message_type = Text | Image | Video | Document | Voice | System

datatype message_status = Sent | Delivered | Seen

record reaction =
  r_emoji :: string
  r_user :: oid

record chat_doc =
  chat_type :: chat_type
  chat_participants :: "oid list"
  chat_admins :: "oid list"

record message_doc =
  msg_chat :: oid
  msg_sender :: oid
  msg_content :: string
  msg_type :: message_type
  msg_status :: message_status
  msg_readBy :: "(oid \<times> nat) list"
  msg_reactions :: "reaction list"
  msg_isEdited :: bool
  msg_editedAt :: "nat option"
  msg_isDeleted :: bool

text \<open>
  \<^verbatim>\<open>chatSchema.methods.isParticipant\<close> and \<^verbatim>\<open>isAdmin\<close>: some entry whose \<^verbatim>\<open>_id\<close> or
  which itself has the string form of the user id.
\<close>

definition isParticipant :: "chat_doc \<Rightarrow> oid \<Rightarrow> bool" where
  "isParticipant c userId = list_ex (\<lambda>p. p = userId \<or> p = userId) (chat_participants c)"

definition isAdmin :: "chat_doc \<Rightarrow> oid \<Rightarrow> bool" where
  "isAdmin c userId = list_ex (\<lambda>a. a = userId \<or> a = userId) (chat_admins c)"

text \<open>
  The message schema declares \<^verbatim>\<open>content\<close> with \<^verbatim>\<open>trim: true\<close>: a string assigned to
  the field is stored as \<^verbatim>\<open>String.prototype.trim\<close> returns it. A string is a sequence of
  8-bit code units; the white space and line terminators of JavaScript among them are
  tab, line feed, vertical tab, form feed, carriage return, space and no-break space.
\<close>

definition isWhiteSpace :: "char \<Rightarrow> bool" where
  "isWhiteSpace c =
     (c \<in> {CHR 0x09, CHR 0x0A, CHR 0x0B, CHR 0x0C, CHR 0x0D, CHR 0x20, CHR 0xA0})"

definition js_trim :: "string \<Rightarrow> string" where
  "js_trim s = rev (dropWhile isWhiteSpace (rev (dropWhile isWhiteSpace s)))"

section \<open>The server: store, rooms, emissions\<close>

text \<open>
  The state a handler works on: the two collections, by document id, and the rooms each
  socket has joined. A handler returns the new state and the events it emits, in order.

  Every \<^verbatim>\<open>await\<close> on the store may reject; the handler's \<^verbatim>\<open>catch\<close> (or the route's
  \<^verbatim>\<open>asyncHandler\<close>) then takes over. Which operations reject during one run of a handler
  is the parameter \<open>rejects\<close>; validation by the schema on \<^verbatim>\<open>save\<close> is one cause, an
  id that cannot be cast in a lookup another.
\<close>

record server =
  db_chats :: "oid \<rightharpoonup> chat_doc"
  db_messages :: "oid \<rightharpoonup> message_doc"
  rooms :: "string \<Rightarrow> string set"

datatype store_op =
  FindChat | FindMessage | SaveMessage | PopulateMessage | UpdateMessages
  | DeleteChat | SaveChat | CreateMessage

record socket =
  sock_id :: string
  sock_userId :: oid

datatype payload =
    ErrorMessage string
  | MessageEdited oid message_doc
  | ReactionUpdated oid oid "reaction list"
  | MessagesRead oid oid "oid list option"

text \<open>
  \<open>ToSocket s\<close> is \<^verbatim>\<open>socket.emit\<close> on socket \<open>s\<close>, \<open>ToRoom r\<close> is \<^verbatim>\<open>io.to(r).emit\<close>, and
  \<open>ToRoomExcept r s\<close> is \<^verbatim>\<open>socket.to(r).emit\<close>: the room without the socket itself.
\<close>

datatype emission =
    ToSocket string payload
  | ToRoom string payload
  | ToRoomExcept string string payload

definition chatRoom :: "oid \<Rightarrow> string" where
  "chatRoom chatId = ''chat:'' @ chatId"

fun is_error_emission :: "emission \<Rightarrow> bool" where
  "is_error_emission (ToSocket s (ErrorMessage e)) = True"
| "is_error_emission (ToRoom r (ErrorMessage e)) = True"
| "is_error_emission (ToRoomExcept r s (ErrorMessage e)) = True"
| "is_error_emission _ = False"

subsection \<open>join-chat (handlers.js, lines 68-78)\<close>

definition join_chat :: "(store_op \<Rightarrow> bool) \<Rightarrow> server \<Rightarrow> socket \<Rightarrow> oid \<Rightarrow> server \<times> emission list" where
  "join_chat rejects st sock chatId =
     (if rejects FindChat
      then (st, [ToSocket (sock_id sock) (ErrorMessage ''Failed to join chat'')])
      else case db_chats st chatId of
             Some c \<Rightarrow>
               if isParticipant c (sock_userId sock)
               then (st\<lparr>rooms := (rooms st)
                       (sock_id sock := insert (chatRoom chatId) (rooms st (sock_id sock)))\<rparr>, [])
               else (st, [])
           | None \<Rightarrow> (st, []))"

subsection \<open>edit-message (handlers.js, lines 137-163)\<close>

definition edit_message ::
  "(store_op \<Rightarrow> bool) \<Rightarrow> nat \<Rightarrow> server \<Rightarrow> socket \<Rightarrow> oid \<Rightarrow> string \<Rightarrow> server \<times> emission list" where
  "edit_message rejects now st sock messageId content =
     (if rejects FindMessage
      then (st, [ToSocket (sock_id sock) (ErrorMessage ''Failed to edit message'')])
      else case db_messages st messageId of
             None \<Rightarrow> (st, [ToSocket (sock_id sock) (ErrorMessage ''Not authorized'')])
           | Some message \<Rightarrow>
               if msg_sender message \<noteq> sock_userId sock
               then (st, [ToSocket (sock_id sock) (ErrorMessage ''Not authorized'')])
               else
                 (let edited = message\<lparr>msg_content := js_trim content, msg_isEdited := True,
                                        msg_editedAt := Some now\<rparr>
                  in if rejects SaveMessage
                     then (st, [ToSocket (sock_id sock) (ErrorMessage ''Failed to edit message'')])
                     else
                       (let saved = st\<lparr>db_messages := (db_messages st)(messageId \<mapsto> edited)\<rparr>
                        in if rejects PopulateMessage
                           then (saved, [ToSocket (sock_id sock)
                                   (ErrorMessage ''Failed to edit message'')])
                           else (saved, [ToRoom (chatRoom (msg_chat edited))
                                   (MessageEdited (msg_chat edited) edited)]))))"

subsection \<open>add-reaction (handlers.js, lines 201-240)\<close>

text \<open>\<^verbatim>\<open>Array.prototype.findIndex\<close>, with \<open>None\<close> for -1.\<close>

fun findIndex :: "('a \<Rightarrow> bool) \<Rightarrow> 'a list \<Rightarrow> nat option" where
  "findIndex P [] = None"
| "findIndex P (x # xs) =
     (if P x then Some 0 else (case findIndex P xs of None \<Rightarrow> None | Some i \<Rightarrow> Some (Suc i)))"

text \<open>\<^verbatim>\<open>xs.splice(i, 1)\<close> for an index within the array.\<close>

definition splice1 :: "nat \<Rightarrow> 'a list \<Rightarrow> 'a list" where
  "splice1 i xs = take i xs @ drop (Suc i) xs"

text \<open>The toggle of lines 216-225, on the reaction list.\<close>

definition toggleReaction :: "reaction list \<Rightarrow> oid \<Rightarrow> string \<Rightarrow> reaction list" where
  "toggleReaction rs userId emoji =
     (case findIndex (\<lambda>r. r_user r = userId \<and> r_emoji r = emoji) rs of
        Some existingIndex \<Rightarrow> splice1 existingIndex rs
      | None \<Rightarrow> rs @ [\<lparr>r_emoji = emoji, r_user = userId\<rparr>])"

definition add_reaction ::
  "(store_op \<Rightarrow> bool) \<Rightarrow> server \<Rightarrow> socket \<Rightarrow> oid \<Rightarrow> string \<Rightarrow> server \<times> emission list" where
  "add_reaction rejects st sock messageId emoji =
     (if rejects FindMessage
      then (st, [ToSocket (sock_id sock) (ErrorMessage ''Failed to add reaction'')])
      else case db_messages st messageId of
             None \<Rightarrow> (st, [ToSocket (sock_id sock) (ErrorMessage ''Message not found'')])
           | Some message \<Rightarrow>
               if rejects FindChat
               then (st, [ToSocket (sock_id sock) (ErrorMessage ''Failed to add reaction'')])
               else
                 (case db_chats st (msg_chat message) of
                    None \<Rightarrow> (st, [ToSocket (sock_id sock) (ErrorMessage ''Not authorized'')])
                  | Some c \<Rightarrow>
                      if \<not> isParticipant c (sock_userId sock)
                      then (st, [ToSocket (sock_id sock) (ErrorMessage ''Not authorized'')])
                      else
                        (let reacted = message\<lparr>msg_reactions :=
                               toggleReaction (msg_reactions message) (sock_userId sock) emoji\<rparr>
                         in if rejects SaveMessage
                            then (st, [ToSocket (sock_id sock)
                                    (ErrorMessage ''Failed to add reaction'')])
                            else
                              (let saved = st\<lparr>db_messages :=
                                     (db_messages st)(messageId \<mapsto> reacted)\<rparr>
                               in if rejects PopulateMessage
                                  then (saved, [ToSocket (sock_id sock)
                                          (ErrorMessage ''Failed to add reaction'')])
                                  else (saved, [ToRoom (chatRoom (msg_chat reacted))
                                          (ReactionUpdated (msg_chat reacted) messageId
                                             (msg_reactions reacted))])))))"

text \<open>The toggle applied \<open>n\<close> times in succession by the same user with the same emoji.\<close>

fun toggleTimes :: "nat \<Rightarrow> reaction list \<Rightarrow> oid \<Rightarrow> string \<Rightarrow> reaction list" where
  "toggleTimes 0 rs userId emoji = rs"
| "toggleTimes (Suc n) rs userId emoji = toggleTimes n (toggleReaction rs userId emoji) userId emoji"

text \<open>The number of instances of a (user, emoji) pair in a reaction list.\<close>

definition instances :: "reaction list \<Rightarrow> oid \<Rightarrow> string \<Rightarrow> nat" where
  "instances rs userId emoji = length (filter (\<lambda>r. r_user r = userId \<and> r_emoji r = emoji) rs)"

subsection \<open>mark-read (handlers.js, lines 264-292)\<close>

text \<open>
  \<^verbatim>\<open>updateMany\<close> applies the update to every document the filter selects: here the id
  is among \<^verbatim>\<open>messageIds\<close> and the sender is not the caller. \<^verbatim>\<open>$addToSet\<close> appends the
  element unless the array holds an equal one; the element here is a \<^verbatim>\<open>readBy\<close>
  subdocument, which the cast of the update gives a fresh \<^verbatim>\<open>_id\<close>, so no stored element
  equals it and it is always appended. An entry of \<^verbatim>\<open>readBy\<close> is kept as the pair of
  its \<^verbatim>\<open>user\<close> and \<^verbatim>\<open>readAt\<close>.
\<close>

definition markReadUpdate :: "oid \<Rightarrow> nat \<Rightarrow> message_doc \<Rightarrow> message_doc" where
  "markReadUpdate userId now m =
     m\<lparr>msg_readBy := msg_readBy m @ [(userId, now)], msg_status := Seen\<rparr>"

definition updateManyRead ::
  "(oid \<rightharpoonup> message_doc) \<Rightarrow> oid list \<Rightarrow> oid \<Rightarrow> nat \<Rightarrow> (oid \<rightharpoonup> message_doc)" where
  "updateManyRead msgs messageIds userId now =
     (\<lambda>k. case msgs k of
             None \<Rightarrow> None
           | Some m \<Rightarrow>
               if k \<in> set messageIds \<and> msg_sender m \<noteq> userId
               then Some (markReadUpdate userId now m) else Some m)"

definition mark_read ::
  "(store_op \<Rightarrow> bool) \<Rightarrow> nat \<Rightarrow> server \<Rightarrow> socket \<Rightarrow> oid \<Rightarrow> oid list option
     \<Rightarrow> server \<times> emission list" where
  "mark_read rejects now st sock chatId messageIds =
     (let notify = [ToRoomExcept (chatRoom chatId) (sock_id sock)
                      (MessagesRead chatId (sock_userId sock) messageIds)]
      in case messageIds of
           None \<Rightarrow> (st, notify)
         | Some ids \<Rightarrow>
             if length ids > 0
             then (if rejects UpdateMessages then (st, [])
                   else (st\<lparr>db_messages :=
                           updateManyRead (db_messages st) ids (sock_userId sock) now\<rparr>, notify))
             else (st, notify))"

text \<open>The users a message has been read by, and the participants other than its sender.\<close>

definition readers :: "message_doc \<Rightarrow> oid set" where
  "readers m = fst ` set (msg_readBy m)"

definition otherParticipants :: "chat_doc \<Rightarrow> message_doc \<Rightarrow> oid set" where
  "otherParticipants c m = set (chat_participants c) - {msg_sender m}"

section \<open>Leaving a group (Backend/routes/chats.js, lines 271-328)\<close>

record req_user =
  user_id :: oid
  user_name :: string

datatype response =
    Success string
  | ChatJson chat_doc
  | AppError string nat
  | StoreFailure

definition systemMessage :: "oid \<Rightarrow> oid \<Rightarrow> string \<Rightarrow> message_doc" where
  "systemMessage chatId userId text =
     \<lparr>msg_chat = chatId, msg_sender = userId, msg_content = js_trim text, msg_type = System,
      msg_status = Sent, msg_readBy = [], msg_reactions = [], msg_isEdited = False,
      msg_editedAt = None, msg_isDeleted = False\<rparr>"

text \<open>
  \<open>newId\<close> is the id the store gives the system message it creates. A store operation
  that rejects ends the route with the error handler's response (\<open>StoreFailure\<close>).
\<close>

definition leave ::
  "(store_op \<Rightarrow> bool) \<Rightarrow> oid \<Rightarrow> server \<Rightarrow> req_user \<Rightarrow> oid \<Rightarrow> server \<times> response" where
  "leave rejects newId st user chatId =
     (if rejects FindChat then (st, StoreFailure)
      else case db_chats st chatId of
             None \<Rightarrow> (st, AppError ''Chat not found'' 404)
           | Some c \<Rightarrow>
               if chat_type c \<noteq> Group then (st, AppError ''Cannot leave private chats'' 400)
               else if \<not> isParticipant c (user_id user)
               then (st, AppError ''Not a member of this group'' 400)
               else
                 (let remaining = filter (\<lambda>p. p \<noteq> user_id user) (chat_participants c);
                      keptAdmins = filter (\<lambda>a. a \<noteq> user_id user) (chat_admins c)
                  in case remaining of
                       [] \<Rightarrow>
                         if rejects DeleteChat then (st, StoreFailure)
                         else (st\<lparr>db_chats := (db_chats st)(chatId := None)\<rparr>,
                               Success ''Left group. Group was deleted as it had no members.'')
                     | first # others \<Rightarrow>
                         (let newAdmins = (if length keptAdmins = 0 \<and> length remaining > 0
                                           then keptAdmins @ [first] else keptAdmins);
                              left = c\<lparr>chat_participants := remaining, chat_admins := newAdmins\<rparr>
                          in if rejects SaveChat then (st, StoreFailure)
                             else
                               (let saved = st\<lparr>db_chats := (db_chats st)(chatId \<mapsto> left)\<rparr>
                                in if rejects CreateMessage then (saved, StoreFailure)
                                   else (saved\<lparr>db_messages := (db_messages saved)(newId \<mapsto>
                                           systemMessage chatId (user_id user)
                                             (user_name user @ '' left the group''))\<rparr>,
                                         Success ''Left group successfully'')))))"

text \<open>The lookup of a chat by id (GET /api/chats/:id, chats.js lines 136-165).\<close>

definition get_chat :: "(store_op \<Rightarrow> bool) \<Rightarrow> server \<Rightarrow> req_user \<Rightarrow> oid \<Rightarrow> response" where
  "get_chat rejects st user chatId =
     (if rejects FindChat then StoreFailure
      else case db_chats st chatId of
             None \<Rightarrow> AppError ''Chat not found'' 404
           | Some c \<Rightarrow>
               if \<not> isParticipant c (user_id user)
               then AppError ''Not authorized to view this chat'' 403
               else ChatJson c)"

text \<open>The run in which every store operation resolves, and one in which the chat lookup fails.\<close>

definition all_resolve :: "store_op \<Rightarrow> bool" where
  "all_resolve op = False"

definition lookup_fails :: "store_op \<Rightarrow> bool" where
  "lookup_fails op = (op = FindChat)"

section \<open>The client store (Frontend/src/stores/chatStore.ts)\<close>

text \<open>
  The store reads an identifier as \<^verbatim>\<open>x.id || x._id\<close> throughout, so both fields are kept,
  each a string or \<^verbatim>\<open>undefined\<close> (\<open>None\<close>): \<open>cm_id\<close> and \<open>cm_uid\<close> are a message's
  \<^verbatim>\<open>id\<close> and \<^verbatim>\<open>_id\<close>, \<open>u_id\<close> and \<open>u_uid\<close> a user's, \<open>cc_id\<close> and \<open>cc_uid\<close> a chat's.
  \<^verbatim>\<open>a || b\<close> is \<open>b\<close> when \<open>a\<close> is \<^verbatim>\<open>undefined\<close> or the empty string, and \<open>a\<close> otherwise.
  A message keeps the fields the store's handlers read or write (its reactions, reply
  and attachments are carried along unchanged by them and left out); an absent
  \<^verbatim>\<open>isDeleted\<close> reads as false.
\<close>

definition js_or :: "string option \<Rightarrow> string option \<Rightarrow> string option" where
  "js_or a b = (case a of None \<Rightarrow> b | Some s \<Rightarrow> if s = [] then b else Some s)"

definition startsWith :: "string \<Rightarrow> string \<Rightarrow> bool" where
  "startsWith s p = (take (length p) s = p)"

record user =
  u_id :: "string option"
  u_uid :: "string option"
  u_name :: string

record message =
  cm_id :: "string option"
  cm_uid :: "string option"
  cm_chat :: string
  cm_content :: string
  cm_type :: message_type
  cm_sender :: user
  cm_createdAt :: nat
  cm_isEdited :: bool
  cm_isDeleted :: bool
  cm_status :: message_status

record chat =
  cc_id :: "string option"
  cc_uid :: "string option"
  cc_lastMessage :: "message option"
  cc_unreadCount :: int

record chat_state =
  chats :: "chat list"
  activeChat :: "chat option"
  messages :: "string \<rightharpoonup> message list"
  typingUsers :: "string \<rightharpoonup> string list"

text \<open>What the store sends out: socket events and REST calls.\<close>

datatype client_call =
    EmitSendMessage string string message_type
  | EmitStopTyping string
  | ApiDeleteMessage string

definition messageKey :: "message \<Rightarrow> string option" where
  "messageKey m = js_or (cm_id m) (cm_uid m)"

definition chatKey :: "chat \<Rightarrow> string option" where
  "chatKey c = js_or (cc_id c) (cc_uid c)"

text \<open>\<^verbatim>\<open>(msg.id || msg._id || '').startsWith('temp-')\<close>\<close>

definition isTemp :: "message \<Rightarrow> bool" where
  "isTemp msg =
     (case js_or (messageKey msg) (Some []) of
        None \<Rightarrow> False
      | Some key \<Rightarrow> startsWith key ''temp-'')"

text \<open>\<^verbatim>\<open>state.messages[chatId] || []\<close>\<close>

definition messagesOf :: "chat_state \<Rightarrow> string \<Rightarrow> message list" where
  "messagesOf state chatId = (case messages state chatId of None \<Rightarrow> [] | Some ms \<Rightarrow> ms)"

subsection \<open>sendMessage (lines 117-175)\<close>

text \<open>
  \<open>stamp\<close> is the decimal text of \<^verbatim>\<open>Date.now()\<close> and \<open>now\<close> the date of creation. Without
  a user the action throws (\<open>None\<close>) before it changes anything.
\<close>

definition sendMessage ::
  "string \<Rightarrow> nat \<Rightarrow> chat_state \<Rightarrow> string \<Rightarrow> string \<Rightarrow> user option \<Rightarrow> message_type
     \<Rightarrow> (chat_state \<times> client_call list) option" where
  "sendMessage stamp now state chatId content currentUser type =
     (case currentUser of
        None \<Rightarrow> None
      | Some usr \<Rightarrow>
          (let tempId = ''temp-'' @ stamp;
               tempMessage = \<lparr>cm_id = Some tempId, cm_uid = Some tempId, cm_chat = chatId,
                              cm_content = content, cm_type = type,
                              cm_sender = \<lparr>u_id = js_or (u_id usr) (u_uid usr), u_uid = u_uid usr,
                                            u_name = u_name usr\<rparr>,
                              cm_createdAt = now, cm_isEdited = False, cm_isDeleted = False,
                              cm_status = Sent\<rparr>
           in Some (state\<lparr>messages := (messages state)
                            (chatId \<mapsto> messagesOf state chatId @ [tempMessage]),
                          chats := map (\<lambda>c. if chatKey c = Some chatId
                                              then c\<lparr>cc_lastMessage := Some tempMessage\<rparr> else c)
                                     (chats state)\<rparr>,
                    [EmitSendMessage chatId content type, EmitStopTyping chatId])))"

subsection \<open>handleNewMessage (lines 361-402)\<close>

definition keepOnNewMessage :: "message \<Rightarrow> message \<Rightarrow> bool" where
  "keepOnNewMessage message msg =
     (let isSameContent = (cm_content msg = cm_content message)
      in if isTemp msg \<and> isSameContent \<and> u_id (cm_sender msg) = u_id (cm_sender message)
         then False
         else if messageKey msg = messageKey message then False
         else True)"

definition handleNewMessage :: "chat_state \<Rightarrow> string \<Rightarrow> message \<Rightarrow> chat_state" where
  "handleNewMessage state chatId message =
     (let currentMessages = messagesOf state chatId;
          filteredMessages = filter (keepOnNewMessage message) currentMessages
      in state\<lparr>messages := (messages state)(chatId \<mapsto> filteredMessages @ [message]),
               chats := map (\<lambda>c. if chatKey c = Some chatId
                                   then c\<lparr>cc_lastMessage := Some message,
                                          cc_unreadCount :=
                                            (case activeChat state of
                                               None \<Rightarrow> cc_unreadCount c + 1
                                             | Some active \<Rightarrow>
                                                 if chatKey active = Some chatId then 0
                                                 else cc_unreadCount c + 1)\<rparr>
                                   else c)
                          (chats state)\<rparr>)"

subsection \<open>deleteMessage (lines 206-249)\<close>

text \<open>
  \<^verbatim>\<open>xs?.map(f)\<close> and \<^verbatim>\<open>xs?.filter(p)\<close> on a conversation's entry, which may be
  \<^verbatim>\<open>undefined\<close>; \<^verbatim>\<open>xs?.find(p)\<close> gives the first match.
\<close>

definition tombstone :: "string \<Rightarrow> message \<Rightarrow> message" where
  "tombstone messageId msg =
     (if messageKey msg = Some messageId
      then msg\<lparr>cm_content := ''This message was deleted'', cm_isDeleted := True\<rparr>
      else msg)"

definition updateState :: "chat_state \<Rightarrow> string \<Rightarrow> string \<Rightarrow> chat_state" where
  "updateState state chatId messageId =
     state\<lparr>messages := (messages state)
              (chatId := map_option (map (tombstone messageId)) (messages state chatId))\<rparr>"

text \<open>
  The result is the new state, the calls made, and whether the action returned (\<open>True\<close>)
  or threw; \<open>apiRejects\<close> says whether the server's delete call fails.
\<close>

definition deleteMessage ::
  "bool \<Rightarrow> chat_state \<Rightarrow> string \<Rightarrow> string \<Rightarrow> chat_state \<times> client_call list \<times> bool" where
  "deleteMessage apiRejects state chatId messageId =
     (let currentMessages = messages state chatId;
          targetMessage = (case currentMessages of
                             None \<Rightarrow> None
                           | Some ms \<Rightarrow> find (\<lambda>m. messageKey m = Some messageId) ms)
      in if (case targetMessage of None \<Rightarrow> False | Some t \<Rightarrow> cm_isDeleted t)
         then (state\<lparr>messages := (messages state)
                        (chatId := map_option (filter (\<lambda>msg. messageKey msg \<noteq> Some messageId))
                                     (messages state chatId))\<rparr>, [], True)
         else if startsWith messageId ''temp-''
         then (updateState state chatId messageId, [], True)
         else if apiRejects then (state, [ApiDeleteMessage messageId], False)
         else (updateState state chatId messageId, [ApiDeleteMessage messageId], True))"

subsection \<open>handleTyping and handleStopTyping (lines 432-458)\<close>

text \<open>\<^verbatim>\<open>[...new Set(xs)]\<close>: the elements in order of first occurrence.\<close>

definition uniqueInOrder :: "'a list \<Rightarrow> 'a list" where
  "uniqueInOrder xs = foldl (\<lambda>seen x. if x \<in> set seen then seen else seen @ [x]) [] xs"

definition typingOf :: "chat_state \<Rightarrow> string \<Rightarrow> string list" where
  "typingOf state chatId = (case typingUsers state chatId of None \<Rightarrow> [] | Some ns \<Rightarrow> ns)"

definition handleTyping :: "chat_state \<Rightarrow> string \<Rightarrow> string \<Rightarrow> chat_state" where
  "handleTyping state chatId userName =
     state\<lparr>typingUsers := (typingUsers state)
              (chatId \<mapsto> uniqueInOrder (typingOf state chatId @ [userName]))\<rparr>"

text \<open>The callback \<^verbatim>\<open>handleTyping\<close> schedules with \<^verbatim>\<open>setTimeout\<close>, run 3 seconds later.\<close>

definition handleTyping_timeout :: "chat_state \<Rightarrow> string \<Rightarrow> string \<Rightarrow> chat_state" where
  "handleTyping_timeout state chatId userName =
     state\<lparr>typingUsers := (typingUsers state)
              (chatId \<mapsto> filter (\<lambda>n. n \<noteq> userName) (typingOf state chatId))\<rparr>"

text \<open>\<^verbatim>\<open>xs.filter((_, i) => i !== 0)\<close>\<close>

definition filterIndexNonzero :: "'a list \<Rightarrow> 'a list" where
  "filterIndexNonzero xs = map fst (filter (\<lambda>(x, i). i \<noteq> 0) (zip xs [0..<length xs]))"

definition handleStopTyping :: "chat_state \<Rightarrow> string \<Rightarrow> string \<Rightarrow> chat_state" where
  "handleStopTyping state chatId userId =
     state\<lparr>typingUsers := (typingUsers state)
              (chatId \<mapsto> filterIndexNonzero (typingOf state chatId))\<rparr>"

definition initialState :: chat_state where
  "initialState = \<lparr>chats = [], activeChat = None, messages = Map.empty,
                   typingUsers = Map.empty\<rparr>"

section \<open>Sample documents\<close>

text \<open>Concrete documents and states on which the handlers are run below.\<close>

definition deleted_note :: message_doc where
  "deleted_note =
     \<lparr>msg_chat = ''c1'', msg_sender = ''u1'', msg_content = ''This message was deleted'',
      msg_type = Text, msg_status = Sent, msg_readBy = [], msg_reactions = [],
      msg_isEdited = False, msg_editedAt = None, msg_isDeleted = True\<rparr>"

definition trio :: chat_doc where
  "trio = \<lparr>chat_type = Group, chat_participants = [''a'', ''b'', ''c''], chat_admins = [''a'']\<rparr>"

definition greeting :: message_doc where
  "greeting =
     \<lparr>msg_chat = ''c1'', msg_sender = ''a'', msg_content = ''hello'', msg_type = Text,
      msg_status = Sent, msg_readBy = [], msg_reactions = [], msg_isEdited = False,
      msg_editedAt = None, msg_isDeleted = False\<rparr>"

definition trio_store :: server where
  "trio_store = \<lparr>db_chats = [''c1'' \<mapsto> trio], db_messages = [''m1'' \<mapsto> greeting],
                  rooms = (\<lambda>s. {})\<rparr>"

definition pair_group :: chat_doc where
  "pair_group = \<lparr>chat_type = Group, chat_participants = [''A'', ''B''], chat_admins = [''A'']\<rparr>"

definition pair_store :: server where
  "pair_store = \<lparr>db_chats = [''g1'' \<mapsto> pair_group], db_messages = Map.empty,
                  rooms = (\<lambda>s. {})\<rparr>"

definition solo_group :: chat_doc where
  "solo_group = \<lparr>chat_type = Group, chat_participants = [''A''], chat_admins = [''A'']\<rparr>"

definition solo_store :: server where
  "solo_store = \<lparr>db_chats = [''g1'' \<mapsto> solo_group], db_messages = Map.empty,
                  rooms = (\<lambda>s. {})\<rparr>"

definition alice :: user where
  "alice = \<lparr>u_id = Some ''u1'', u_uid = Some ''u1'', u_name = ''Alice''\<rparr>"

definition temp_hello :: message where
  "temp_hello =
     \<lparr>cm_id = Some ''temp-1'', cm_uid = Some ''temp-1'', cm_chat = ''c1'',
      cm_content = ''hello'', cm_type = Text, cm_sender = alice, cm_createdAt = 10,
      cm_isEdited = False, cm_isDeleted = False, cm_status = Sent\<rparr>"

definition echo_hello :: message where
  "echo_hello = temp_hello\<lparr>cm_id := Some ''m-42'', cm_uid := Some ''m-42'', cm_createdAt := 11\<rparr>"

definition sent_state :: chat_state where
  "sent_state = initialState\<lparr>messages := [''c1'' \<mapsto> [temp_hello]]\<rparr>"

definition deleted_hello :: message where
  "deleted_hello = echo_hello\<lparr>cm_content := ''This message was deleted'', cm_isDeleted := True\<rparr>"

definition other_entry :: message where
  "other_entry = echo_hello\<lparr>cm_id := Some ''m-43'', cm_uid := Some ''m-43'', cm_content := ''bye''\<rparr>"

section \<open>Presence\<close>

lemma on_connection_lookup:
  "on_connection r u s u' =
     (if u' = u then Some (insert s (registeredSockets r u)) else r u')"
  by (cases "r u") (simp_all add: on_connection_def registeredSockets_def Let_def)

lemma on_disconnect_lookup:
  "on_disconnect r u s u' =
     (if u' = u then (if registeredSockets r u - {s} = {} then None
                      else Some (registeredSockets r u - {s}))
      else r u')"
  by (cases "r u") (simp_all add: on_disconnect_def registeredSockets_def Let_def)

lemma no_empty_entry_step:
  "no_empty_entry (gw_registry g) \<Longrightarrow> no_empty_entry (gw_registry (gateway_step g e))"
  by (cases e) (simp_all add: no_empty_entry_def on_connection_lookup on_disconnect_lookup)

lemma no_empty_entry_foldl:
  "no_empty_entry (gw_registry g) \<Longrightarrow> no_empty_entry (gw_registry (foldl gateway_step g evs))"
  by (induction evs arbitrary: g) (simp_all add: no_empty_entry_step)

lemma no_empty_entry_after: "no_empty_entry (registry_after evs)"
  unfolding registry_after_def
  by (rule no_empty_entry_foldl) (simp add: no_empty_entry_def gateway_start_def)

text \<open>
  C1. After any sequence of connections, listener registrations and closes, a user is
  reported online exactly when the registry holds at least one socket id for that user.
\<close>

theorem presence_invariant:
  "isUserOnline (registry_after evs) U \<longleftrightarrow> registeredSockets (registry_after evs) U \<noteq> {}"
proof (cases "registry_after evs U")
  case None
  then show ?thesis by (simp add: isUserOnline_def registeredSockets_def)
next
  case (Some S)
  have "S \<noteq> {}"
    using no_empty_entry_after [of evs] Some by (auto simp: no_empty_entry_def)
  with Some show ?thesis by (simp add: isUserOnline_def registeredSockets_def)
qed

theorem presence_invariant_witness:
  "isUserOnline (registry_after [Connect ''u1'' ''s1'', Listen ''u1'' ''s1'',
       Connect ''u1'' ''s2'', Listen ''u1'' ''s2'', Disconnect ''u1'' ''s1'']) ''u1''
   \<and> registeredSockets (registry_after [Connect ''u1'' ''s1'', Listen ''u1'' ''s1'',
       Connect ''u1'' ''s2'', Listen ''u1'' ''s2'', Disconnect ''u1'' ''s1'']) ''u1'' = {''s2''}
   \<and> \<not> isUserOnline (registry_after [Connect ''u1'' ''s1'', Listen ''u1'' ''s1'',
       Connect ''u1'' ''s2'', Listen ''u1'' ''s2'', Disconnect ''u1'' ''s1'',
       Disconnect ''u1'' ''s2'']) ''u1''"
  using presence_invariant [of "[Connect ''u1'' ''s1'', Listen ''u1'' ''s1'',
       Connect ''u1'' ''s2'', Listen ''u1'' ''s2'', Disconnect ''u1'' ''s1'']" "''u1''"]
  by (auto simp: registry_after_def gateway_start_def on_connection_lookup
      on_disconnect_lookup registeredSockets_def isUserOnline_def)

text \<open>
  The registry holds what the handlers registered, which need not be open: a socket that
  closes before its disconnect listener is registered stays in the registry.
\<close>

lemma early_close_stays_registered:
  "registeredSockets (registry_after [Connect ''u1'' ''s1'', Disconnect ''u1'' ''s1'',
       Listen ''u1'' ''s1'']) ''u1'' = {''s1''}"
  by (auto simp: registry_after_def gateway_start_def on_connection_lookup registeredSockets_def)

section \<open>Reaction toggle\<close>

lemma findIndex_None: "findIndex P xs = None \<longleftrightarrow> (\<forall>x\<in>set xs. \<not> P x)"
  by (induction xs) (auto split: option.splits)

lemma findIndex_Some:
  "findIndex P xs = Some i \<Longrightarrow> i < length xs \<and> P (xs ! i) \<and> (\<forall>j<i. \<not> P (xs ! j))"
proof (induction xs arbitrary: i)
  case Nil
  then show ?case by simp
next
  case (Cons x xs)
  then show ?case
    by (auto split: if_splits option.splits simp: nth_Cons split: nat.splits)
qed

lemma length_filter_splice1:
  "i < length xs \<Longrightarrow> P (xs ! i) \<Longrightarrow>
   Suc (length (filter P (splice1 i xs))) = length (filter P xs)"
proof -
  assume a: "i < length xs" "P (xs ! i)"
  have "xs = take i xs @ xs ! i # drop (Suc i) xs"
    using a(1) by (simp add: id_take_nth_drop)
  then have "filter P xs = filter P (take i xs) @ filter P (xs ! i # drop (Suc i) xs)"
    by (metis filter_append)
  with a(2) show ?thesis by (simp add: splice1_def)
qed

lemma length_filter_splice1_other:
  "i < length xs \<Longrightarrow> \<not> Q (xs ! i) \<Longrightarrow>
   length (filter Q (splice1 i xs)) = length (filter Q xs)"
proof -
  assume a: "i < length xs" "\<not> Q (xs ! i)"
  have "xs = take i xs @ xs ! i # drop (Suc i) xs"
    using a(1) by (simp add: id_take_nth_drop)
  then have "filter Q xs = filter Q (take i xs) @ filter Q (xs ! i # drop (Suc i) xs)"
    by (metis filter_append)
  with a(2) show ?thesis by (simp add: splice1_def)
qed

lemma instances_toggleReaction:
  "instances (toggleReaction rs u e) u e =
     (if instances rs u e = 0 then 1 else instances rs u e - 1)"
proof (cases "findIndex (\<lambda>r. r_user r = u \<and> r_emoji r = e) rs")
  case None
  then have "\<forall>x\<in>set rs. \<not> (r_user x = u \<and> r_emoji x = e)" by (simp add: findIndex_None)
  then have "filter (\<lambda>r. r_user r = u \<and> r_emoji r = e) rs = []" by (simp add: filter_empty_conv)
  with None show ?thesis by (simp add: toggleReaction_def instances_def)
next
  case (Some i)
  from findIndex_Some [OF Some]
  have i: "i < length rs" "r_user (rs ! i) = u \<and> r_emoji (rs ! i) = e" by auto
  from length_filter_splice1 [of i rs "\<lambda>r. r_user r = u \<and> r_emoji r = e", OF i]
  show ?thesis using Some by (auto simp: toggleReaction_def instances_def)
qed

lemma instances_toggleReaction_other:
  assumes "(u', e') \<noteq> (u, e)"
  shows "instances (toggleReaction rs u e) u' e' = instances rs u' e'"
proof (cases "findIndex (\<lambda>r. r_user r = u \<and> r_emoji r = e) rs")
  case None
  with assms show ?thesis by (auto simp: toggleReaction_def instances_def)
next
  case (Some i)
  from findIndex_Some [OF Some]
  have i: "i < length rs" "r_user (rs ! i) = u \<and> r_emoji (rs ! i) = e" by auto
  then have "\<not> (r_user (rs ! i) = u' \<and> r_emoji (rs ! i) = e')" using assms by auto
  from length_filter_splice1_other [of i rs "\<lambda>r. r_user r = u' \<and> r_emoji r = e'", OF i(1) this]
  show ?thesis using Some by (simp add: toggleReaction_def instances_def)
qed

lemma toggleReaction_at_most_once:
  assumes "\<forall>u e. instances rs u e \<le> 1"
  shows "instances (toggleReaction rs u' e') u e \<le> 1"
proof (cases "(u, e) = (u', e')")
  case True
  then show ?thesis using assms [rule_format, of u' e'] by (simp add: instances_toggleReaction)
next
  case False
  then show ?thesis using assms by (simp add: instances_toggleReaction_other)
qed

lemma findIndex_append_new:
  "findIndex P xs = None \<Longrightarrow> P x \<Longrightarrow> findIndex P (xs @ [x]) = Some (length xs)"
  by (induction xs) (auto split: if_splits option.splits)

lemma toggleReaction_twice_absent:
  assumes "instances rs u e = 0"
  shows "toggleReaction (toggleReaction rs u e) u e = rs"
proof -
  have none: "findIndex (\<lambda>r. r_user r = u \<and> r_emoji r = e) rs = None"
    using assms by (auto simp: findIndex_None instances_def filter_empty_conv)
  then have one: "toggleReaction rs u e = rs @ [\<lparr>r_emoji = e, r_user = u\<rparr>]"
    by (simp add: toggleReaction_def)
  have "findIndex (\<lambda>r. r_user r = u \<and> r_emoji r = e) (rs @ [\<lparr>r_emoji = e, r_user = u\<rparr>])
          = Some (length rs)"
    by (rule findIndex_append_new [OF none]) simp
  then have "toggleReaction (rs @ [\<lparr>r_emoji = e, r_user = u\<rparr>]) u e = rs"
    by (simp add: toggleReaction_def splice1_def)
  then show ?thesis by (simp only: one)
qed

lemma instances_toggleTimes:
  "instances rs u e \<le> 1 \<Longrightarrow>
   instances (toggleTimes n rs u e) u e = (if even n then instances rs u e else 1 - instances rs u e)"
proof (induction n arbitrary: rs)
  case 0
  then show ?case by simp
next
  case (Suc n)
  have le: "instances (toggleReaction rs u e) u e \<le> 1"
    using Suc.prems by (simp add: instances_toggleReaction)
  show ?case
    using Suc.IH [OF le] Suc.prems by (auto simp: instances_toggleReaction)
qed

lemma add_reaction_authorised:
  assumes "db_messages st messageId = Some m" and "db_chats st (msg_chat m) = Some c"
    and "isParticipant c (sock_userId sock)" and "\<forall>op. \<not> rejects op"
  shows "add_reaction rejects st sock messageId emoji =
           (st\<lparr>db_messages := (db_messages st)(messageId \<mapsto>
                 m\<lparr>msg_reactions := toggleReaction (msg_reactions m) (sock_userId sock) emoji\<rparr>)\<rparr>,
            [ToRoom (chatRoom (msg_chat m))
               (ReactionUpdated (msg_chat m) messageId
                  (toggleReaction (msg_reactions m) (sock_userId sock) emoji))])"
  using assms by (simp add: add_reaction_def Let_def)

text \<open>
  C3 (as amended). On a reaction list that holds the (user, emoji) pair at most once, as
  every list the toggle builds from an empty one does, toggling twice leaves the number
  of instances of the pair unchanged, and the whole list when the pair was absent;
  toggling an odd number of times ends with exactly one instance when the pair was absent
  at the start and with none when it was present. The toggle keeps the pair at most once.
\<close>

theorem reaction_toggle:
  assumes "instances rs u e \<le> 1"
  shows "instances (toggleTimes 2 rs u e) u e = instances rs u e
       \<and> (instances rs u e = 0 \<longrightarrow> toggleTimes 2 rs u e = rs)
       \<and> (odd n \<longrightarrow> instances (toggleTimes n rs u e) u e = 1 - instances rs u e)
       \<and> instances (toggleReaction rs u e) u e \<le> 1"
  using assms instances_toggleTimes [OF assms, of n] instances_toggleTimes [OF assms, of 2]
  by (auto simp: numeral_2_eq_2 toggleReaction_twice_absent instances_toggleReaction)

theorem reaction_toggle_witness:
  "instances [] ''u1'' ''+'' \<le> 1
   \<and> toggleTimes 2 [] ''u1'' ''+'' = []
   \<and> odd (3::nat)
   \<and> instances (toggleTimes 3 [] ''u1'' ''+'') ''u1'' ''+'' = 1"
  using reaction_toggle [of "[]" "''u1''" "''+''" 3]
  by (simp add: instances_def)

text \<open>
  The claim as stated fails on a message that already carries the reaction: one toggle,
  an odd number, removes it and leaves no instance.
\<close>

theorem reaction_toggle_counterexample:
  "odd (1::nat) \<and>
   instances (toggleTimes 1 [\<lparr>r_emoji = ''+'', r_user = ''u1''\<rparr>] ''u1'' ''+'') ''u1'' ''+'' = 0"
  by (simp add: instances_def toggleReaction_def splice1_def)

section \<open>Gateway handlers: edit-message, mark-read, join-chat\<close>

lemma edit_message_unauthorised:
  assumes "db_messages st messageId = None
           \<or> (\<exists>m. db_messages st messageId = Some m \<and> msg_sender m \<noteq> sock_userId sock)"
  shows "fst (edit_message rejects now st sock messageId content) = st
       \<and> (\<exists>e. snd (edit_message rejects now st sock messageId content)
                 = [ToSocket (sock_id sock) (ErrorMessage e)])"
  using assms by (auto simp: edit_message_def)

lemma edit_message_by_sender:
  assumes "db_messages st messageId = Some m" and "msg_sender m = sock_userId sock"
    and "\<forall>op. \<not> rejects op"
  shows "edit_message rejects now st sock messageId content =
           (st\<lparr>db_messages := (db_messages st)(messageId \<mapsto>
                 m\<lparr>msg_content := js_trim content, msg_isEdited := True,
                   msg_editedAt := Some now\<rparr>)\<rparr>,
            [ToRoom (chatRoom (msg_chat m))
               (MessageEdited (msg_chat m)
                  (m\<lparr>msg_content := js_trim content, msg_isEdited := True,
                   msg_editedAt := Some now\<rparr>))])"
  using assms by (simp add: edit_message_def Let_def)

text \<open>
  C4 (as amended). When the message exists, the caller is its sender, its type is text
  and the store operations resolve, the edit-message operation replaces the content by
  the new content as the schema trims it, sets the edited flag and timestamp and sends
  message-edited to the chat's room, whether or not the message is soft-deleted. When the message does not exist or the caller is not
  its sender, the store is unchanged and the only emission is one error event to the
  caller's socket.
\<close>

theorem edit_message_preconditions:
  "(db_messages st messageId = Some m \<and> msg_sender m = sock_userId sock \<and> msg_type m = Text
      \<and> (\<forall>op. \<not> rejects op)
    \<longrightarrow> edit_message rejects now st sock messageId content =
          (st\<lparr>db_messages := (db_messages st)(messageId \<mapsto>
                m\<lparr>msg_content := js_trim content, msg_isEdited := True,
                   msg_editedAt := Some now\<rparr>)\<rparr>,
           [ToRoom (chatRoom (msg_chat m))
              (MessageEdited (msg_chat m)
                 (m\<lparr>msg_content := js_trim content, msg_isEdited := True,
                   msg_editedAt := Some now\<rparr>))]))
   \<and> (db_messages st messageId = None
        \<or> (db_messages st messageId = Some m \<and> msg_sender m \<noteq> sock_userId sock)
      \<longrightarrow> fst (edit_message rejects now st sock messageId content) = st
          \<and> (\<exists>e. snd (edit_message rejects now st sock messageId content)
                    = [ToSocket (sock_id sock) (ErrorMessage e)]))"
  using edit_message_by_sender [of st messageId m sock rejects now content]
    edit_message_unauthorised [of st messageId sock rejects now content]
  by blast

lemma js_trim_padded: "js_trim '' hi  '' = ''hi''"
  by (simp add: js_trim_def isWhiteSpace_def)

lemma js_trim_plain: "js_trim ''hi'' = ''hi''"
  by (simp add: js_trim_def isWhiteSpace_def)

theorem edit_message_preconditions_witness:
  "edit_message all_resolve 7
      \<lparr>db_chats = Map.empty, db_messages = [''m1'' \<mapsto> deleted_note], rooms = (\<lambda>s. {})\<rparr>
      \<lparr>sock_id = ''s1'', sock_userId = ''u1''\<rparr> ''m1'' '' hi  ''
    = (\<lparr>db_chats = Map.empty,
        db_messages = [''m1'' \<mapsto> deleted_note\<lparr>msg_content := ''hi'', msg_isEdited := True,
                                                msg_editedAt := Some 7\<rparr>],
        rooms = (\<lambda>s. {})\<rparr>,
       [ToRoom ''chat:c1'' (MessageEdited ''c1''
          (deleted_note\<lparr>msg_content := ''hi'', msg_isEdited := True, msg_editedAt := Some 7\<rparr>))])
   \<and> edit_message all_resolve 7
      \<lparr>db_chats = Map.empty, db_messages = [''m1'' \<mapsto> deleted_note], rooms = (\<lambda>s. {})\<rparr>
      \<lparr>sock_id = ''s2'', sock_userId = ''u2''\<rparr> ''m1'' '' hi  ''
    = (\<lparr>db_chats = Map.empty, db_messages = [''m1'' \<mapsto> deleted_note], rooms = (\<lambda>s. {})\<rparr>,
       [ToSocket ''s2'' (ErrorMessage ''Not authorized'')])"
  using edit_message_preconditions [of
      "\<lparr>db_chats = Map.empty, db_messages = [''m1'' \<mapsto> deleted_note], rooms = (\<lambda>s. {})\<rparr>"
      "''m1''" deleted_note "\<lparr>sock_id = ''s1'', sock_userId = ''u1''\<rparr>" all_resolve 7
      "'' hi  ''"]
  by (simp add: deleted_note_def all_resolve_def edit_message_def chatRoom_def js_trim_padded)

text \<open>
  The claim as stated fails on a soft-deleted text message edited by its sender: the
  content changes and the emission is message-edited to the room, not an error.
\<close>

theorem edit_message_deleted_counterexample:
  "msg_isDeleted deleted_note
   \<and> db_messages (fst (edit_message all_resolve 7
        \<lparr>db_chats = Map.empty, db_messages = [''m1'' \<mapsto> deleted_note], rooms = (\<lambda>s. {})\<rparr>
        \<lparr>sock_id = ''s1'', sock_userId = ''u1''\<rparr> ''m1'' ''hi'')) ''m1''
      = Some (deleted_note\<lparr>msg_content := ''hi'', msg_isEdited := True, msg_editedAt := Some 7\<rparr>)
   \<and> db_messages (fst (edit_message all_resolve 7
        \<lparr>db_chats = Map.empty, db_messages = [''m1'' \<mapsto> deleted_note], rooms = (\<lambda>s. {})\<rparr>
        \<lparr>sock_id = ''s1'', sock_userId = ''u1''\<rparr> ''m1'' ''hi'')) ''m1''
      \<noteq> Some deleted_note
   \<and> \<not> list_ex is_error_emission (snd (edit_message all_resolve 7
        \<lparr>db_chats = Map.empty, db_messages = [''m1'' \<mapsto> deleted_note], rooms = (\<lambda>s. {})\<rparr>
        \<lparr>sock_id = ''s1'', sock_userId = ''u1''\<rparr> ''m1'' ''hi''))"
  by (simp add: deleted_note_def all_resolve_def edit_message_def chatRoom_def Let_def
      js_trim_plain)

lemma updateManyRead_lookup:
  "db_messages st k = Some m \<Longrightarrow>
   updateManyRead (db_messages st) ids u now k =
     Some (if k \<in> set ids \<and> msg_sender m \<noteq> u then markReadUpdate u now m else m)"
  by (simp add: updateManyRead_def)

lemma readers_markReadUpdate: "u \<in> readers (markReadUpdate u now m)"
  by (simp add: readers_def markReadUpdate_def)

lemma status_markReadUpdate: "msg_status (markReadUpdate u now m) = Seen"
  by (simp add: markReadUpdate_def)

text \<open>
  C5 (as amended). When the update resolves, mark-read appends a read entry of the caller
  to every targeted message not sent by the caller and gives it the status seen at once,
  whoever else has read it; every other message of the store is unchanged; and messages-read goes to the
  chat's room except the caller's socket.
\<close>

theorem mark_read_sets_seen:
  assumes "\<not> rejects UpdateMessages" and "ids \<noteq> []" and "db_messages st k = Some m"
  shows "\<exists>m'. db_messages (fst (mark_read rejects now st sock chatId (Some ids))) k = Some m'
          \<and> (if k \<in> set ids \<and> msg_sender m \<noteq> sock_userId sock
              then m' = markReadUpdate (sock_userId sock) now m
                   \<and> sock_userId sock \<in> readers m' \<and> msg_status m' = Seen
              else m' = m)
          \<and> snd (mark_read rejects now st sock chatId (Some ids))
              = [ToRoomExcept (chatRoom chatId) (sock_id sock)
                   (MessagesRead chatId (sock_userId sock) (Some ids))]"
  using assms
  by (simp add: mark_read_def Let_def updateManyRead_lookup readers_markReadUpdate
      status_markReadUpdate)

theorem mark_read_sets_seen_witness:
  "db_messages (fst (mark_read all_resolve 5 trio_store \<lparr>sock_id = ''s2'', sock_userId = ''b''\<rparr>
       ''c1'' (Some [''m1'']))) ''m1''
     = Some (greeting\<lparr>msg_readBy := [(''b'', 5)], msg_status := Seen\<rparr>)
   \<and> snd (mark_read all_resolve 5 trio_store \<lparr>sock_id = ''s2'', sock_userId = ''b''\<rparr>
       ''c1'' (Some [''m1'']))
     = [ToRoomExcept ''chat:c1'' ''s2'' (MessagesRead ''c1'' ''b'' (Some [''m1'']))]"
  using mark_read_sets_seen [of all_resolve "[''m1'']" trio_store "''m1''" greeting 5
      "\<lparr>sock_id = ''s2'', sock_userId = ''b''\<rparr>" "''c1''"]
  by (simp add: all_resolve_def trio_store_def greeting_def markReadUpdate_def
      chatRoom_def)

text \<open>
  The claim as stated fails in a group of three: once one of the two other participants
  marks the message read it is seen, though the third has not read it.
\<close>

theorem mark_read_partial_counterexample:
  "(case db_messages (fst (mark_read all_resolve 5 trio_store
            \<lparr>sock_id = ''s2'', sock_userId = ''b''\<rparr> ''c1'' (Some [''m1'']))) ''m1'' of
      None \<Rightarrow> False
    | Some m' \<Rightarrow> msg_status m' = Seen \<and> ''c'' \<in> otherParticipants trio m'
                 \<and> ''c'' \<notin> readers m')"
  by (simp add: all_resolve_def trio_store_def greeting_def trio_def mark_read_def Let_def
      updateManyRead_def markReadUpdate_def otherParticipants_def readers_def)

text \<open>
  C8 (as amended). A join-chat request by a socket whose user is not a participant of the
  target conversation, or whose target does not exist, leaves the state (so every room
  membership) unchanged. When the lookup of the chat resolves it emits nothing; when
  the lookup fails, its only emission is one error event, failed to join chat, to the
  caller's socket.
\<close>

theorem join_chat_unauthorised:
  assumes "db_chats st chatId = None
           \<or> (\<exists>c. db_chats st chatId = Some c \<and> \<not> isParticipant c (sock_userId sock))"
  shows "fst (join_chat rejects st sock chatId) = st
       \<and> rooms (fst (join_chat rejects st sock chatId)) = rooms st
       \<and> (\<not> rejects FindChat \<longrightarrow> join_chat rejects st sock chatId = (st, []))
       \<and> (rejects FindChat \<longrightarrow> join_chat rejects st sock chatId =
            (st, [ToSocket (sock_id sock) (ErrorMessage ''Failed to join chat'')]))"
  using assms by (auto simp: join_chat_def)

theorem join_chat_unauthorised_witness:
  "\<not> isParticipant trio ''z''
   \<and> join_chat all_resolve trio_store \<lparr>sock_id = ''s9'', sock_userId = ''z''\<rparr> ''c1''
       = (trio_store, [])
   \<and> join_chat all_resolve trio_store \<lparr>sock_id = ''s9'', sock_userId = ''z''\<rparr> ''c404''
       = (trio_store, [])
   \<and> join_chat lookup_fails trio_store \<lparr>sock_id = ''s9'', sock_userId = ''z''\<rparr> ''c1''
       = (trio_store, [ToSocket ''s9'' (ErrorMessage ''Failed to join chat'')])"
  using join_chat_unauthorised [of trio_store "''c1''"
      "\<lparr>sock_id = ''s9'', sock_userId = ''z''\<rparr>" all_resolve]
  by (simp add: all_resolve_def lookup_fails_def trio_store_def trio_def isParticipant_def
      join_chat_def)

text \<open>
  The claim as stated fails when the lookup of the chat fails, as it does for an id
  that is not an object id: the catch sends an error event to the socket of a user who
  is no participant of any such conversation.
\<close>

theorem join_chat_lookup_fails_counterexample:
  "db_chats trio_store ''not-an-id'' = None
   \<and> snd (join_chat lookup_fails trio_store \<lparr>sock_id = ''s9'', sock_userId = ''z''\<rparr>
        ''not-an-id'')
       = [ToSocket ''s9'' (ErrorMessage ''Failed to join chat'')]
   \<and> list_ex is_error_emission
        (snd (join_chat lookup_fails trio_store \<lparr>sock_id = ''s9'', sock_userId = ''z''\<rparr>
           ''not-an-id''))"
  by (simp add: lookup_fails_def trio_store_def join_chat_def)

lemma join_chat_participant:
  assumes "db_chats st chatId = Some c" and "isParticipant c (sock_userId sock)"
    and "\<not> rejects FindChat"
  shows "join_chat rejects st sock chatId =
           (st\<lparr>rooms := (rooms st)
                 (sock_id sock := insert (chatRoom chatId) (rooms st (sock_id sock)))\<rparr>, [])"
  using assms by (simp add: join_chat_def)

section \<open>Leaving a group\<close>

lemma isParticipant_iff: "isParticipant c u \<longleftrightarrow> u \<in> set (chat_participants c)"
  by (auto simp: isParticipant_def list_ex_iff)

lemma leave_changed_chat:
  assumes "db_chats (fst (leave rejects newId st user chatId)) chatId = Some c'"
    and "db_chats st chatId \<noteq> Some c'"
  shows "chat_participants c' \<noteq> [] \<and> chat_admins c' \<noteq> []"
  using assms
  by (auto simp: leave_def Let_def split: if_splits option.splits list.splits)

lemma leave_other_chats:
  "k \<noteq> chatId \<Longrightarrow> db_chats (fst (leave rejects newId st user chatId)) k = db_chats st k"
  by (auto simp: leave_def Let_def split: if_splits option.splits list.splits)

lemma leave_resolved:
  assumes "db_chats st chatId = Some c" and "chat_type c = Group"
    and "isParticipant c (user_id user)" and "\<forall>op. \<not> rejects op"
    and "filter (\<lambda>p. p \<noteq> user_id user) (chat_participants c) = first # others"
  shows "leave rejects newId st user chatId =
          (st\<lparr>db_chats := (db_chats st)(chatId \<mapsto>
                  c\<lparr>chat_participants := first # others,
                    chat_admins :=
                      (if filter (\<lambda>a. a \<noteq> user_id user) (chat_admins c) = [] then [first]
                       else filter (\<lambda>a. a \<noteq> user_id user) (chat_admins c))\<rparr>),
               db_messages := (db_messages st)(newId \<mapsto>
                  systemMessage chatId (user_id user) (user_name user @ '' left the group''))\<rparr>,
           Success ''Left group successfully'')"
  using assms by (simp add: leave_def Let_def)

text \<open>
  C6. A leave on a group never stores the conversation with participants but no admin:
  whenever the stored conversation changes, its participants and its admins are both
  non-empty. When the leaving member was the only admin and other participants remain
  (and the store operations resolve), the conversation is kept with the remaining
  participants and the first of them as its sole admin.
\<close>

theorem leave_keeps_an_admin:
  assumes "db_chats st chatId = Some c" and "chat_type c = Group"
    and "isParticipant c (user_id user)"
  shows "(\<forall>c'. db_chats (fst (leave rejects newId st user chatId)) chatId = Some c' \<and> c' \<noteq> c
              \<longrightarrow> chat_participants c' \<noteq> [] \<and> chat_admins c' \<noteq> [])
       \<and> ((\<forall>op. \<not> rejects op)
            \<and> filter (\<lambda>p. p \<noteq> user_id user) (chat_participants c) = first # others
            \<and> filter (\<lambda>a. a \<noteq> user_id user) (chat_admins c) = []
          \<longrightarrow> db_chats (fst (leave rejects newId st user chatId)) chatId
                = Some (c\<lparr>chat_participants := first # others, chat_admins := [first]\<rparr>)
              \<and> snd (leave rejects newId st user chatId) = Success ''Left group successfully'')"
proof (intro conjI allI impI)
  fix c'
  assume "db_chats (fst (leave rejects newId st user chatId)) chatId = Some c' \<and> c' \<noteq> c"
  then have "db_chats (fst (leave rejects newId st user chatId)) chatId = Some c'"
    and "db_chats st chatId \<noteq> Some c'"
    using assms(1) by auto
  then have "chat_participants c' \<noteq> [] \<and> chat_admins c' \<noteq> []"
    by (rule leave_changed_chat)
  then show "chat_participants c' \<noteq> []" and "chat_admins c' \<noteq> []" by auto
next
  assume a: "(\<forall>op. \<not> rejects op)
            \<and> filter (\<lambda>p. p \<noteq> user_id user) (chat_participants c) = first # others
            \<and> filter (\<lambda>a. a \<noteq> user_id user) (chat_admins c) = []"
  then have "leave rejects newId st user chatId =
          (st\<lparr>db_chats := (db_chats st)(chatId \<mapsto>
                  c\<lparr>chat_participants := first # others, chat_admins := [first]\<rparr>),
               db_messages := (db_messages st)(newId \<mapsto>
                  systemMessage chatId (user_id user) (user_name user @ '' left the group''))\<rparr>,
           Success ''Left group successfully'')"
    using leave_resolved [OF assms, of rejects first others newId] by simp
  then show "db_chats (fst (leave rejects newId st user chatId)) chatId
                = Some (c\<lparr>chat_participants := first # others, chat_admins := [first]\<rparr>)"
    and "snd (leave rejects newId st user chatId) = Success ''Left group successfully''"
    by simp_all
qed

theorem leave_keeps_an_admin_witness:
  "db_chats (fst (leave all_resolve ''m9'' pair_store \<lparr>user_id = ''A'', user_name = ''Ann''\<rparr>
       ''g1'')) ''g1''
     = Some \<lparr>chat_type = Group, chat_participants = [''B''], chat_admins = [''B'']\<rparr>
   \<and> snd (leave all_resolve ''m9'' pair_store \<lparr>user_id = ''A'', user_name = ''Ann''\<rparr> ''g1'')
     = Success ''Left group successfully''"
  using leave_keeps_an_admin [where st = pair_store and chatId = "''g1''" and c = pair_group
      and user = "\<lparr>user_id = ''A'', user_name = ''Ann''\<rparr>" and rejects = all_resolve
      and first = "''B''" and others = "[]" and newId = "''m9''"]
  by (simp add: pair_store_def pair_group_def all_resolve_def isParticipant_def)

text \<open>
  C7. When the only participant of a group leaves (and the lookup and the deletion
  resolve), the conversation is deleted from the store, and a later lookup of its id by
  anyone answers 404, chat not found.
\<close>

theorem leave_last_participant_deletes:
  assumes "db_chats st chatId = Some c" and "chat_type c = Group"
    and "isParticipant c (user_id user)"
    and "\<forall>p \<in> set (chat_participants c). p = user_id user"
    and "\<not> rejects FindChat" and "\<not> rejects DeleteChat"
  shows "leave rejects newId st user chatId =
           (st\<lparr>db_chats := (db_chats st)(chatId := None)\<rparr>,
            Success ''Left group. Group was deleted as it had no members.'')
       \<and> db_chats (fst (leave rejects newId st user chatId)) chatId = None
       \<and> get_chat rejects (fst (leave rejects newId st user chatId)) anyone chatId
           = AppError ''Chat not found'' 404"
proof -
  have "filter (\<lambda>p. p \<noteq> user_id user) (chat_participants c) = []"
    using assms(4) by (simp add: filter_empty_conv)
  then have "leave rejects newId st user chatId =
           (st\<lparr>db_chats := (db_chats st)(chatId := None)\<rparr>,
            Success ''Left group. Group was deleted as it had no members.'')"
    using assms by (simp add: leave_def Let_def)
  then show ?thesis using assms(5) by (simp add: get_chat_def)
qed

theorem leave_last_participant_deletes_witness:
  "leave all_resolve ''m9'' solo_store \<lparr>user_id = ''A'', user_name = ''Ann''\<rparr> ''g1''
     = (solo_store\<lparr>db_chats := Map.empty\<rparr>,
        Success ''Left group. Group was deleted as it had no members.'')
   \<and> get_chat all_resolve
        (fst (leave all_resolve ''m9'' solo_store \<lparr>user_id = ''A'', user_name = ''Ann''\<rparr> ''g1''))
        \<lparr>user_id = ''A'', user_name = ''Ann''\<rparr> ''g1''
     = AppError ''Chat not found'' 404"
  using leave_last_participant_deletes [where st = solo_store and chatId = "''g1''"
      and c = solo_group and user = "\<lparr>user_id = ''A'', user_name = ''Ann''\<rparr>"
      and rejects = all_resolve and newId = "''m9''"
      and anyone = "\<lparr>user_id = ''A'', user_name = ''Ann''\<rparr>"]
  by (simp add: solo_store_def solo_group_def all_resolve_def isParticipant_def get_chat_def)

section \<open>Client store: reconciling the server echo\<close>

lemma messagesOf_handleNewMessage:
  "messagesOf (handleNewMessage state chatId message) chatId =
     filter (keepOnNewMessage message) (messagesOf state chatId) @ [message]"
  by (simp add: handleNewMessage_def messagesOf_def Let_def)

lemma messagesOf_handleNewMessage_other:
  "k \<noteq> chatId \<Longrightarrow> messagesOf (handleNewMessage state chatId message) k = messagesOf state k"
  by (simp add: handleNewMessage_def messagesOf_def Let_def)

lemma keepOnNewMessage_key:
  "keepOnNewMessage message msg \<Longrightarrow> messageKey msg \<noteq> messageKey message"
  by (auto simp: keepOnNewMessage_def Let_def split: if_splits)

lemma keepOnNewMessage_temp:
  "keepOnNewMessage message msg \<Longrightarrow>
   \<not> (isTemp msg \<and> cm_content msg = cm_content message
        \<and> u_id (cm_sender msg) = u_id (cm_sender message))"
  by (auto simp: keepOnNewMessage_def Let_def split: if_splits)

lemma reconcile_core:
  assumes "\<not> isTemp message"
  shows "filter (\<lambda>m. messageKey m = messageKey message)
           (filter (keepOnNewMessage message) ms @ [message]) = [message]"
    and "filter (\<lambda>m. isTemp m \<and> cm_content m = cm_content message
                      \<and> u_id (cm_sender m) = u_id (cm_sender message))
           (filter (keepOnNewMessage message) ms @ [message]) = []"
proof -
  have "filter (\<lambda>m. messageKey m = messageKey message) (filter (keepOnNewMessage message) ms) = []"
    by (auto simp: filter_empty_conv dest: keepOnNewMessage_key)
  then show "filter (\<lambda>m. messageKey m = messageKey message)
           (filter (keepOnNewMessage message) ms @ [message]) = [message]"
    by simp
  have "filter (\<lambda>m. isTemp m \<and> cm_content m = cm_content message
                      \<and> u_id (cm_sender m) = u_id (cm_sender message))
           (filter (keepOnNewMessage message) ms) = []"
    by (auto simp: filter_empty_conv dest: keepOnNewMessage_temp)
  with assms show "filter (\<lambda>m. isTemp m \<and> cm_content m = cm_content message
                      \<and> u_id (cm_sender m) = u_id (cm_sender message))
           (filter (keepOnNewMessage message) ms @ [message]) = []"
    by simp
qed

text \<open>
  C2. When the conversation's sequence holds a temporary message and a canonical message
  (one whose id is not temp-prefixed) arrives with the same content and the same sender
  id, the sequence after \<open>handleNewMessage\<close> no longer holds the temporary entry, holds
  exactly one entry with the canonical message's id, the canonical message itself, and
  holds no temporary entry with that content and sender.
\<close>

theorem reconcile_temp_message:
  assumes "t \<in> set (messagesOf state chatId)" and "isTemp t"
    and "cm_content t = cm_content message"
    and "u_id (cm_sender t) = u_id (cm_sender message)"
    and "\<not> isTemp message"
  shows "t \<notin> set (messagesOf (handleNewMessage state chatId message) chatId)
       \<and> filter (\<lambda>m. messageKey m = messageKey message)
           (messagesOf (handleNewMessage state chatId message) chatId) = [message]
       \<and> filter (\<lambda>m. isTemp m \<and> cm_content m = cm_content message
                      \<and> u_id (cm_sender m) = u_id (cm_sender message))
           (messagesOf (handleNewMessage state chatId message) chatId) = []"
proof -
  have "\<not> keepOnNewMessage message t"
    using assms(2-4) by (simp add: keepOnNewMessage_def)
  moreover have "t \<noteq> message" using assms(2,5) by auto
  ultimately have "t \<notin> set (filter (keepOnNewMessage message) (messagesOf state chatId) @ [message])"
    by simp
  then show ?thesis
    using reconcile_core [OF assms(5), of "messagesOf state chatId"]
    by (simp only: messagesOf_handleNewMessage simp_thms)
qed

lemma isTemp_temp_hello: "isTemp temp_hello"
  by (simp add: isTemp_def temp_hello_def messageKey_def js_or_def startsWith_def)

lemma not_isTemp_echo_hello: "\<not> isTemp echo_hello"
  by (simp add: isTemp_def echo_hello_def temp_hello_def messageKey_def js_or_def startsWith_def)

theorem reconcile_temp_message_witness:
  "sendMessage ''1'' 10 initialState ''c1'' ''hello'' (Some alice) Text
     = Some (sent_state, [EmitSendMessage ''c1'' ''hello'' Text, EmitStopTyping ''c1''])
   \<and> isTemp temp_hello \<and> \<not> isTemp echo_hello
   \<and> messagesOf (handleNewMessage sent_state ''c1'' echo_hello) ''c1'' = [echo_hello]
   \<and> temp_hello \<notin> set (messagesOf (handleNewMessage sent_state ''c1'' echo_hello) ''c1'')"
proof -
  have sent: "messagesOf sent_state ''c1'' = [temp_hello]"
    by (simp add: sent_state_def messagesOf_def initialState_def)
  have same: "cm_content temp_hello = cm_content echo_hello"
    "u_id (cm_sender temp_hello) = u_id (cm_sender echo_hello)"
    by (simp_all add: echo_hello_def)
  have "temp_hello \<in> set (messagesOf sent_state ''c1'')" by (simp add: sent)
  from reconcile_temp_message [OF this isTemp_temp_hello same not_isTemp_echo_hello]
  have gone: "temp_hello \<notin> set (messagesOf (handleNewMessage sent_state ''c1'' echo_hello) ''c1'')"
    by simp
  have "\<not> keepOnNewMessage echo_hello temp_hello"
    using isTemp_temp_hello same by (simp add: keepOnNewMessage_def)
  then have after: "messagesOf (handleNewMessage sent_state ''c1'' echo_hello) ''c1'' = [echo_hello]"
    by (simp add: messagesOf_handleNewMessage sent)
  have send: "sendMessage ''1'' 10 initialState ''c1'' ''hello'' (Some alice) Text
     = Some (sent_state, [EmitSendMessage ''c1'' ''hello'' Text, EmitStopTyping ''c1''])"
    by (simp add: sendMessage_def sent_state_def initialState_def messagesOf_def temp_hello_def
        alice_def js_or_def Let_def)
  show ?thesis using send after gone isTemp_temp_hello not_isTemp_echo_hello by simp
qed

text \<open>
  The sending side: \<open>sendMessage\<close> appends a temporary entry with the content and the
  sender id that the echo is compared with.
\<close>

lemma sendMessage_appends_temp:
  assumes "sendMessage stamp now state chatId content (Some usr) type = Some (sent, calls)"
  shows "\<exists>t. messagesOf sent chatId = messagesOf state chatId @ [t] \<and> isTemp t
           \<and> messageKey t = Some (''temp-'' @ stamp) \<and> cm_content t = content
           \<and> u_id (cm_sender t) = js_or (u_id usr) (u_uid usr)"
  using assms
  by (auto simp: sendMessage_def Let_def messagesOf_def isTemp_def messageKey_def js_or_def
      startsWith_def)

section \<open>Client store: typing indicators and local deletion\<close>

lemma filter_index_shifted:
  "length ys = length js \<Longrightarrow>
   map fst (filter (\<lambda>(x, i). i \<noteq> 0) (zip ys (map Suc js))) = ys"
  by (induction ys js rule: list_induct2) simp_all

lemma filterIndexNonzero_tl: "filterIndexNonzero xs = tl xs"
proof (cases xs)
  case Nil
  then show ?thesis by (simp add: filterIndexNonzero_def)
next
  case (Cons x ys)
  have "[0..<Suc (length ys)] = 0 # map Suc [0..<length ys]"
    by (simp add: upt_conv_Cons map_Suc_upt del: upt_Suc)
  then show ?thesis
    using Cons filter_index_shifted [of ys "[0..<length ys]"]
    by (simp add: filterIndexNonzero_def del: upt_Suc)
qed

lemma handleStopTyping_drops_first:
  "typingUsers (handleStopTyping state chatId userId) chatId = Some (tl (typingOf state chatId))"
  by (simp add: handleStopTyping_def filterIndexNonzero_tl)

lemma handleTyping_timeout_clears_user:
  "typingUsers (handleTyping_timeout state chatId userName) chatId
     = Some (filter (\<lambda>n. n \<noteq> userName) (typingOf state chatId))"
  by (simp add: handleTyping_timeout_def)

text \<open>
  C9. With Alice and Bob typing in a conversation, the stop-typing event of Bob removes
  Alice, the first entry, and leaves Bob: \<open>handleStopTyping\<close> does not look at the user
  it is given.
\<close>

theorem stop_typing_removes_first:
  "typingUsers (handleTyping (handleTyping initialState ''c1'' ''Alice'') ''c1'' ''Bob'') ''c1''
     = Some [''Alice'', ''Bob'']
   \<and> typingUsers (handleStopTyping
        (handleTyping (handleTyping initialState ''c1'' ''Alice'') ''c1'' ''Bob'')
        ''c1'' ''u-bob'') ''c1''
     = Some [''Bob'']"
  by (simp add: handleStopTyping_def handleTyping_def initialState_def typingOf_def
      uniqueInOrder_def filterIndexNonzero_def)

lemma tombstone_other:
  "messageKey msg \<noteq> Some messageId \<Longrightarrow> tombstone messageId msg = msg"
  by (simp add: tombstone_def)

lemma tombstone_keeps_key: "messageKey (tombstone messageId msg) = messageKey msg"
  by (simp add: tombstone_def messageKey_def)

lemma find_in_set: "find P xs = Some x \<Longrightarrow> x \<in> set xs \<and> P x"
  by (induction xs) (auto split: if_splits)

text \<open>
  C10 (as amended). For the first entry of the conversation with the given id: when it
  is already marked deleted, \<open>deleteMessage\<close> makes no call and keeps exactly the entries
  with another id, unchanged and in order; when it is not, and the id is temporary or
  the server's delete call succeeds, every entry stays in place, those with the given id
  get the tombstone content and the deleted flag, and the server is called only for an
  id that is not temporary; when it is not, the id is not temporary and the server's
  delete call fails, the action throws and the state is unchanged.
\<close>

theorem deleteMessage_local:
  assumes "messages state chatId = Some ms"
    and "find (\<lambda>m. messageKey m = Some messageId) ms = Some t"
  shows "(cm_isDeleted t \<longrightarrow>
            deleteMessage apiRejects state chatId messageId =
              (state\<lparr>messages := (messages state)
                  (chatId \<mapsto> filter (\<lambda>msg. messageKey msg \<noteq> Some messageId) ms)\<rparr>, [], True))
       \<and> (\<not> cm_isDeleted t \<and> (startsWith messageId ''temp-'' \<or> \<not> apiRejects) \<longrightarrow>
            deleteMessage apiRejects state chatId messageId =
              (state\<lparr>messages := (messages state)(chatId \<mapsto> map (tombstone messageId) ms)\<rparr>,
               (if startsWith messageId ''temp-'' then [] else [ApiDeleteMessage messageId]),
               True)
            \<and> t\<lparr>cm_content := ''This message was deleted'', cm_isDeleted := True\<rparr>
                 \<in> set (map (tombstone messageId) ms)
            \<and> length (map (tombstone messageId) ms) = length ms)
       \<and> (\<not> cm_isDeleted t \<and> \<not> startsWith messageId ''temp-'' \<and> apiRejects \<longrightarrow>
            deleteMessage apiRejects state chatId messageId =
              (state, [ApiDeleteMessage messageId], False))"
proof -
  from find_in_set [OF assms(2)] have t: "t \<in> set ms" "messageKey t = Some messageId" by auto
  then have "tombstone messageId t \<in> set (map (tombstone messageId) ms)" by simp
  then have "t\<lparr>cm_content := ''This message was deleted'', cm_isDeleted := True\<rparr>
                 \<in> set (map (tombstone messageId) ms)"
    using t(2) by (simp add: tombstone_def)
  then show ?thesis
    using assms by (auto simp: deleteMessage_def Let_def updateState_def)
qed

theorem deleteMessage_local_witness:
  "deleteMessage False (initialState\<lparr>messages := [''c1'' \<mapsto> [deleted_hello, other_entry]]\<rparr>)
      ''c1'' ''m-42''
     = (initialState\<lparr>messages := [''c1'' \<mapsto> [other_entry]]\<rparr>, [], True)
   \<and> deleteMessage False (initialState\<lparr>messages := [''c1'' \<mapsto> [echo_hello, other_entry]]\<rparr>)
      ''c1'' ''m-42''
     = (initialState\<lparr>messages := [''c1'' \<mapsto> [deleted_hello, other_entry]]\<rparr>,
        [ApiDeleteMessage ''m-42''], True)
   \<and> deleteMessage False (initialState\<lparr>messages := [''c1'' \<mapsto> [temp_hello, other_entry]]\<rparr>)
      ''c1'' ''temp-1''
     = (initialState\<lparr>messages := [''c1'' \<mapsto>
          [temp_hello\<lparr>cm_content := ''This message was deleted'', cm_isDeleted := True\<rparr>,
           other_entry]]\<rparr>, [], True)"
proof -
  have keys: "messageKey deleted_hello = Some ''m-42''" "messageKey echo_hello = Some ''m-42''"
    "messageKey other_entry = Some ''m-43''" "messageKey temp_hello = Some ''temp-1''"
    by (simp_all add: messageKey_def js_or_def deleted_hello_def echo_hello_def other_entry_def
        temp_hello_def)
  have flags: "cm_isDeleted deleted_hello" "\<not> cm_isDeleted echo_hello"
    "\<not> cm_isDeleted temp_hello"
    by (simp_all add: deleted_hello_def echo_hello_def temp_hello_def)
  have "deleteMessage False (initialState\<lparr>messages := [''c1'' \<mapsto> [deleted_hello, other_entry]]\<rparr>)
      ''c1'' ''m-42''
     = (initialState\<lparr>messages := [''c1'' \<mapsto> [other_entry]]\<rparr>, [], True)"
    using deleteMessage_local [of "initialState\<lparr>messages := [''c1'' \<mapsto> [deleted_hello, other_entry]]\<rparr>"
        "''c1''" "[deleted_hello, other_entry]" "''m-42''" deleted_hello False] keys flags
    by simp
  moreover have "deleteMessage False
      (initialState\<lparr>messages := [''c1'' \<mapsto> [echo_hello, other_entry]]\<rparr>) ''c1'' ''m-42''
     = (initialState\<lparr>messages := [''c1'' \<mapsto> [deleted_hello, other_entry]]\<rparr>,
        [ApiDeleteMessage ''m-42''], True)"
    using keys flags
    by (simp add: deleteMessage_def Let_def updateState_def tombstone_def startsWith_def
        deleted_hello_def)
  moreover have "deleteMessage False
      (initialState\<lparr>messages := [''c1'' \<mapsto> [temp_hello, other_entry]]\<rparr>) ''c1'' ''temp-1''
     = (initialState\<lparr>messages := [''c1'' \<mapsto>
          [temp_hello\<lparr>cm_content := ''This message was deleted'', cm_isDeleted := True\<rparr>,
           other_entry]]\<rparr>, [], True)"
    using keys flags
    by (simp add: deleteMessage_def Let_def updateState_def tombstone_def startsWith_def)
  ultimately show ?thesis by simp
qed

text \<open>
  The claim as stated fails for a message that is not yet deleted when the server's
  delete call fails: the action throws, and the entry keeps its content and is not
  marked deleted.
\<close>

theorem deleteMessage_api_fails_counterexample:
  "\<not> cm_isDeleted echo_hello \<and> cm_content echo_hello = ''hello''
   \<and> deleteMessage True (initialState\<lparr>messages := [''c1'' \<mapsto> [echo_hello, other_entry]]\<rparr>)
        ''c1'' ''m-42''
     = (initialState\<lparr>messages := [''c1'' \<mapsto> [echo_hello, other_entry]]\<rparr>,
        [ApiDeleteMessage ''m-42''], False)"
  by (simp add: deleteMessage_def Let_def startsWith_def echo_hello_def temp_hello_def
      messageKey_def js_or_def)

end
